theory Spec2Isabelle
  imports Main "HOL-Library.AList"
begin

section \<open>Data model of the HTTP inference client\<close>

text \<open>
  The development embeds \<^verbatim>\<open>src/clients/http/client.py\<close>: the error-translation decorator
  \<^verbatim>\<open>wrap_errors\<close>, the class \<^verbatim>\<open>InferenceHTTPClient\<close> and the helper
  \<^verbatim>\<open>unwrap_single_element_list\<close>. Python values that the client handles (parsed JSON
  documents, request bodies, decoded images) are values of \<open>py\<close>; a dictionary is an
  association list, so that assignment to an existing key keeps the key's position.
\<close>

datatype py =
    PyNone
  | PyBool bool
  | PyInt int
  | PyFloat string
  | PyStr string
  | PyList "py list"
  | PyDict "(string \<times> py) list"
  | PyObject string

text \<open>
  \<open>PyFloat\<close> keeps a number by its literal and \<open>PyObject\<close> stands for a host object the
  client only passes on (a decoded image); neither is ever computed with.
\<close>

datatype HTTPClientMode = NEW | LEGACY

datatype ModelType = INSTANCE_SEGMENTATION | OBJECT_DETECTION | CLASSIFICATION

datatype http_verb = GET | POST

record request =
  verb :: http_verb
  url :: string
  headers :: "(string \<times> string) list"
  params :: "(string \<times> py) list"
  json_body :: "py option"
  data :: "string option"

text \<open>
  A response of the \<^verbatim>\<open>requests\<close> library. \<open>resp_headers\<close> is the lookup
  \<^verbatim>\<open>response.headers.get\<close> (\<open>None\<close> for a header the response does not carry),
  \<open>body_text\<close> is \<^verbatim>\<open>response.text\<close>, \<open>content\<close> the raw bytes, \<open>json\<close> what
  \<^verbatim>\<open>response.json()\<close> returns (\<open>None\<close> when it raises its decoding error), and
  \<open>http_error_msg\<close> the text the library gives the \<^verbatim>\<open>HTTPError\<close> it raises for this
  response.
\<close>

record response =
  status_code :: int
  resp_headers :: "string \<Rightarrow> string option"
  body_text :: string
  content :: string
  json :: "py option"
  http_error_msg :: string

text \<open>
  Exceptions. \<open>HTTPError\<close> is \<^verbatim>\<open>requests.HTTPError\<close> with its message and response;
  \<open>ConnectionError\<close> is the Python builtin that \<^verbatim>\<open>wrap_errors\<close> names in its second
  handler; \<open>OtherError\<close> is any exception that neither handler catches. The last three
  named ones are the client's own (\<^verbatim>\<open>clients.http.errors\<close>).
\<close>

datatype exn =
    HTTPError string response
  | ConnectionError string
  | AttributeError
  | TypeError
  | KeyError
  | JSONDecodeError
  | OtherError string
  | HTTPCallErrorError string int py
  | HTTPClientError string
  | InvalidModelIdentifier string

datatype inference_input = Single string | Many "string list"

text \<open>
  \<^verbatim>\<open>InferenceConfiguration\<close> is declared outside the embedded file; the client reads
  two attributes of it and calls two methods, whose results are fields here.
\<close>

record InferenceConfiguration =
  image_extensions_for_directory_scan :: "string list option"
  output_visualisation_format :: string
  to_legacy_call_parameters :: "(string \<times> py) list"
  to_api_call_parameters :: "HTTPClientMode \<Rightarrow> ModelType \<Rightarrow> (string \<times> py) list"

text \<open>The attributes of \<^verbatim>\<open>InferenceHTTPClient\<close>, set by \<^verbatim>\<open>__init__\<close>.\<close>

record client =
  api_url :: string
  api_key :: string
  inference_configuration :: InferenceConfiguration
  client_mode :: HTTPClientMode
  model_type :: ModelType
  selected_model :: "string option"

text \<open>
  What the client calls but does not define: the server behind \<^verbatim>\<open>requests.get\<close> and
  \<^verbatim>\<open>requests.post\<close> (it answers a request, knowing the requests sent before, with a
  response or an exception), the input loaders, the image helpers and the two
  \<^verbatim>\<open>from_dict\<close> constructors. Each is a parameter of the model. A frame source is
  given by position: \<open>None\<close> from the position where it is exhausted.
\<close>

record env =
  server :: "request list \<Rightarrow> request \<Rightarrow> exn + response"
  load_static_inference_input :: "inference_input \<Rightarrow> exn + string list"
  load_stream_inference_input :: "string \<Rightarrow> string list option \<Rightarrow> nat \<Rightarrow> string option"
  response_contains_jpeg_image :: "response \<Rightarrow> bool"
  transform_visualisation_bytes :: "string \<Rightarrow> string \<Rightarrow> exn + py"
  transform_base64_visualisation :: "py \<Rightarrow> string \<Rightarrow> exn + py"
  ServerInfo_from_dict :: "py \<Rightarrow> exn + py"
  RegisteredModels_from_dict :: "py \<Rightarrow> exn + py"

section \<open>Python and library primitives\<close>

text \<open>\<^verbatim>\<open>needle in haystack\<close> on strings.\<close>

fun str_in :: "string \<Rightarrow> string \<Rightarrow> bool" where
  "str_in needle [] = (needle = [])"
| "str_in needle (c # cs) = (take (length needle) (c # cs) = needle \<or> str_in needle cs)"

text \<open>\<^verbatim>\<open>s.split(sep)\<close> for a one-character separator.\<close>

fun str_split :: "char \<Rightarrow> string \<Rightarrow> string list" where
  "str_split sep [] = ['''']"
| "str_split sep (c # cs) =
     (if c = sep then [] # str_split sep cs
      else (case str_split sep cs of
              [] \<Rightarrow> [c # '''']
            | w # ws \<Rightarrow> (c # w) # ws))"

text \<open>\<^verbatim>\<open>a or b\<close> on optional strings: \<^verbatim>\<open>None\<close> and the empty string are falsy.\<close>

fun str_or :: "string option \<Rightarrow> string option \<Rightarrow> string option" where
  "str_or None b = b"
| "str_or (Some s) b = (if s = [] then b else Some s)"

text \<open>\<^verbatim>\<open>a or b\<close> where \<open>b\<close> is an enumeration member (always truthy, as \<open>a\<close> is when given).\<close>

fun type_or :: "ModelType option \<Rightarrow> ModelType \<Rightarrow> ModelType" where
  "type_or None b = b"
| "type_or (Some a) b = a"

text \<open>\<^verbatim>\<open>d.get(key)\<close>: only a dictionary has the method.\<close>

fun py_get :: "py \<Rightarrow> string \<Rightarrow> exn + py" where
  "py_get (PyDict kvs) key = Inr (case map_of kvs key of None \<Rightarrow> PyNone | Some v \<Rightarrow> v)"
| "py_get _ key = Inl AttributeError"

text \<open>\<^verbatim>\<open>d[key] = v\<close>: only a dictionary (of the values a JSON parser returns) accepts it.\<close>

fun py_setitem :: "py \<Rightarrow> string \<Rightarrow> py \<Rightarrow> exn + py" where
  "py_setitem (PyDict kvs) key v = Inr (PyDict (AList.update key v kvs))"
| "py_setitem _ key v = Inl TypeError"

text \<open>\<^verbatim>\<open>d.update(other)\<close>.\<close>

definition dict_update :: "(string \<times> 'v) list \<Rightarrow> (string \<times> 'v) list \<Rightarrow> (string \<times> 'v) list" where
  "dict_update d other = foldl (\<lambda>acc (k, v). AList.update k v acc) d other"

text \<open>\<^verbatim>\<open>str(x)\<close> inside an f-string, for an optional string.\<close>

fun fmt_opt :: "string option \<Rightarrow> string" where
  "fmt_opt None = ''None''"
| "fmt_opt (Some s) = s"

text \<open>
  \<^verbatim>\<open>Response.raise_for_status()\<close> of the \<^verbatim>\<open>requests\<close> library: it raises
  \<^verbatim>\<open>HTTPError\<close> for a status code from 400 to 599 and returns otherwise.
\<close>

definition raise_for_status :: "response \<Rightarrow> exn + unit" where
  "raise_for_status r =
     (if 400 \<le> status_code r \<and> status_code r < 600
      then Inl (HTTPError (http_error_msg r) r) else Inr ())"

text \<open>\<^verbatim>\<open>response.json()\<close>.\<close>

definition response_json :: "response \<Rightarrow> exn + py" where
  "response_json r = (case json r of None \<Rightarrow> Inl JSONDecodeError | Some doc \<Rightarrow> Inr doc)"

text \<open>Sending a request: the server answers, and the request joins those sent.\<close>

definition send :: "env \<Rightarrow> request list \<Rightarrow> request \<Rightarrow> (exn + response) \<times> request list" where
  "send E sent req = (server E sent req, sent @ [req])"

section \<open>Constants of the module\<close>

definition DEFAULT_HEADERS :: "(string \<times> string) list" where
  "DEFAULT_HEADERS = [(''Content-Type'', ''application/json'')]"

definition NEW_INFERENCE_ENDPOINTS :: "(ModelType \<times> string) list" where
  "NEW_INFERENCE_ENDPOINTS =
     [(INSTANCE_SEGMENTATION, ''/infer/instance_segmentation''),
      (OBJECT_DETECTION, ''/infer/object_detection''),
      (CLASSIFICATION, ''/infer/classification'')]"

section \<open>The error-translation decorator\<close>

text \<open>
  \<^verbatim>\<open>wrap_errors\<close> acts on the outcome of the decorated call. In the first handler
  \<^verbatim>\<open>headers.get("Content-Type")\<close> is \<^verbatim>\<open>None\<close> for a response without the header, and
  \<^verbatim>\<open>in\<close> applied to \<^verbatim>\<open>None\<close> raises \<^verbatim>\<open>TypeError\<close>; an exception raised inside a
  handler leaves the \<^verbatim>\<open>try\<close> statement.
\<close>

fun api_message_of :: "response \<Rightarrow> exn + py" where
  "api_message_of r =
     (case resp_headers r ''Content-Type'' of
        None \<Rightarrow> Inl TypeError
      | Some ct \<Rightarrow>
          if str_in ''application/json'' ct
          then (case response_json r of
                  Inl e \<Rightarrow> Inl e
                | Inr doc \<Rightarrow> py_get doc ''message'')
          else Inr (PyStr (body_text r)))"

fun wrap_errors :: "exn + 'a \<Rightarrow> exn + 'a" where
  "wrap_errors (Inr v) = Inr v"
| "wrap_errors (Inl (HTTPError description r)) =
     (case api_message_of r of
        Inl e \<Rightarrow> Inl e
      | Inr api_message \<Rightarrow> Inl (HTTPCallErrorError description (status_code r) api_message))"
| "wrap_errors (Inl (ConnectionError description)) =
     Inl (HTTPClientError (''Error with server connection: '' @ description))"
| "wrap_errors (Inl e) = Inl e"

section \<open>The client: configuration\<close>

definition init :: "InferenceConfiguration \<Rightarrow> string \<Rightarrow> string \<Rightarrow> HTTPClientMode \<Rightarrow> client" where
  "init init_default u k mode =
     \<lparr>api_url = u, api_key = k, inference_configuration = init_default,
      client_mode = mode, model_type = OBJECT_DETECTION, selected_model = None\<rparr>"

definition configure :: "client \<Rightarrow> InferenceConfiguration \<Rightarrow> client" where
  "configure self cfg = self\<lparr>inference_configuration := cfg\<rparr>"

definition use_legacy_client :: "client \<Rightarrow> client" where
  "use_legacy_client self = self\<lparr>client_mode := LEGACY\<rparr>"

definition use_new_client :: "client \<Rightarrow> client" where
  "use_new_client self = self\<lparr>client_mode := NEW\<rparr>"

definition use_model :: "client \<Rightarrow> string \<Rightarrow> ModelType \<Rightarrow> client" where
  "use_model self model_id mt = self\<lparr>selected_model := Some model_id, model_type := mt\<rparr>"

section \<open>The client: registry operations\<close>

text \<open>
  A method returns its result or exception, the client after the call and the requests
  sent so far. The undecorated bodies come first; the method is the body under
  \<^verbatim>\<open>wrap_errors\<close>, which changes the outcome only.
\<close>

type_synonym 'a effect = "(exn + 'a) \<times> client \<times> request list"

definition decorate :: "'a effect \<Rightarrow> 'a effect" where
  "decorate r = (case r of (outcome, self, sent) \<Rightarrow> (wrap_errors outcome, self, sent))"

definition get_request :: "string \<Rightarrow> request" where
  "get_request u = \<lparr>verb = GET, url = u, headers = [], params = [], json_body = None, data = None\<rparr>"

definition post_request ::
  "string \<Rightarrow> (string \<times> string) list \<Rightarrow> (string \<times> py) list \<Rightarrow> py option \<Rightarrow> string option \<Rightarrow> request" where
  "post_request u hs ps j d =
     \<lparr>verb = POST, url = u, headers = hs, params = ps, json_body = j, data = d\<rparr>"

definition get_server_info_body :: "env \<Rightarrow> client \<Rightarrow> request list \<Rightarrow> py effect" where
  "get_server_info_body E self sent =
     (case send E sent (get_request (api_url self @ ''/info'')) of
        (Inl e, sent') \<Rightarrow> (Inl e, self, sent')
      | (Inr response, sent') \<Rightarrow>
          (case raise_for_status response of
             Inl e \<Rightarrow> (Inl e, self, sent')
           | Inr _ \<Rightarrow>
               (case response_json response of
                  Inl e \<Rightarrow> (Inl e, self, sent')
                | Inr response_payload \<Rightarrow> (ServerInfo_from_dict E response_payload, self, sent'))))"

definition get_server_info :: "env \<Rightarrow> client \<Rightarrow> request list \<Rightarrow> py effect" where
  "get_server_info E self sent = decorate (get_server_info_body E self sent)"

definition list_loaded_models_body :: "env \<Rightarrow> client \<Rightarrow> request list \<Rightarrow> py effect" where
  "list_loaded_models_body E self sent =
     (case send E sent (get_request (api_url self @ ''/model/registry'')) of
        (Inl e, sent') \<Rightarrow> (Inl e, self, sent')
      | (Inr response, sent') \<Rightarrow>
          (case raise_for_status response of
             Inl e \<Rightarrow> (Inl e, self, sent')
           | Inr _ \<Rightarrow>
               (case response_json response of
                  Inl e \<Rightarrow> (Inl e, self, sent')
                | Inr response_payload \<Rightarrow>
                    (RegisteredModels_from_dict E response_payload, self, sent'))))"

definition list_loaded_models :: "env \<Rightarrow> client \<Rightarrow> request list \<Rightarrow> py effect" where
  "list_loaded_models E self sent = decorate (list_loaded_models_body E self sent)"

text \<open>The requests of the three calls that change the session.\<close>

definition load_model_request :: "client \<Rightarrow> string \<Rightarrow> request" where
  "load_model_request self model_id =
     post_request (api_url self @ ''/model/add'') DEFAULT_HEADERS []
       (Some (PyDict [(''model_id'', PyStr model_id), (''api_key'', PyStr (api_key self))])) None"

definition unload_model_request :: "client \<Rightarrow> string \<Rightarrow> request" where
  "unload_model_request self model_id =
     post_request (api_url self @ ''/model/remove'') DEFAULT_HEADERS []
       (Some (PyDict [(''model_id'', PyStr model_id)])) None"

definition unload_all_models_request :: "client \<Rightarrow> request" where
  "unload_all_models_request self =
     post_request (api_url self @ ''/model/clear'') [] [] None None"

definition load_model_body ::
  "env \<Rightarrow> client \<Rightarrow> string \<Rightarrow> ModelType \<Rightarrow> bool \<Rightarrow> request list \<Rightarrow> py effect" where
  "load_model_body E self model_id mt set_as_default sent =
     (case send E sent (load_model_request self model_id) of
        (Inl e, sent') \<Rightarrow> (Inl e, self, sent')
      | (Inr response, sent') \<Rightarrow>
          (case raise_for_status response of
             Inl e \<Rightarrow> (Inl e, self, sent')
           | Inr _ \<Rightarrow>
               (case response_json response of
                  Inl e \<Rightarrow> (Inl e, self, sent')
                | Inr response_payload \<Rightarrow>
                    (let self' = (if set_as_default
                                  then self\<lparr>selected_model := Some model_id, model_type := mt\<rparr>
                                  else self)
                     in (RegisteredModels_from_dict E response_payload, self', sent')))))"

definition load_model ::
  "env \<Rightarrow> client \<Rightarrow> string \<Rightarrow> ModelType \<Rightarrow> bool \<Rightarrow> request list \<Rightarrow> py effect" where
  "load_model E self model_id mt set_as_default sent =
     decorate (load_model_body E self model_id mt set_as_default sent)"

definition unload_model_body :: "env \<Rightarrow> client \<Rightarrow> string \<Rightarrow> request list \<Rightarrow> py effect" where
  "unload_model_body E self model_id sent =
     (case send E sent (unload_model_request self model_id) of
        (Inl e, sent') \<Rightarrow> (Inl e, self, sent')
      | (Inr response, sent') \<Rightarrow>
          (case raise_for_status response of
             Inl e \<Rightarrow> (Inl e, self, sent')
           | Inr _ \<Rightarrow>
               (case response_json response of
                  Inl e \<Rightarrow> (Inl e, self, sent')
                | Inr response_payload \<Rightarrow>
                    (let self' = (if Some model_id = selected_model self
                                  then self\<lparr>selected_model := None, model_type := OBJECT_DETECTION\<rparr>
                                  else self)
                     in (RegisteredModels_from_dict E response_payload, self', sent')))))"

definition unload_model :: "env \<Rightarrow> client \<Rightarrow> string \<Rightarrow> request list \<Rightarrow> py effect" where
  "unload_model E self model_id sent = decorate (unload_model_body E self model_id sent)"

definition unload_all_models_body :: "env \<Rightarrow> client \<Rightarrow> request list \<Rightarrow> py effect" where
  "unload_all_models_body E self sent =
     (case send E sent (unload_all_models_request self) of
        (Inl e, sent') \<Rightarrow> (Inl e, self, sent')
      | (Inr response, sent') \<Rightarrow>
          (case raise_for_status response of
             Inl e \<Rightarrow> (Inl e, self, sent')
           | Inr _ \<Rightarrow>
               (case response_json response of
                  Inl e \<Rightarrow> (Inl e, self, sent')
                | Inr response_payload \<Rightarrow>
                    (RegisteredModels_from_dict E response_payload,
                     self\<lparr>selected_model := None, model_type := OBJECT_DETECTION\<rparr>, sent'))))"

definition unload_all_models :: "env \<Rightarrow> client \<Rightarrow> request list \<Rightarrow> py effect" where
  "unload_all_models E self sent = decorate (unload_all_models_body E self sent)"

section \<open>The client: inference\<close>

definition unwrap_single_element_list :: "py list \<Rightarrow> py" where
  "unwrap_single_element_list sequence =
     (if length sequence = 1 then sequence ! 0 else PyList sequence)"

text \<open>
  The legacy path. What the loop does with one response is \<open>legacy_result\<close>; the
  request it builds for one element is \<open>legacy_request\<close>.
\<close>

definition legacy_request :: "client \<Rightarrow> string list \<Rightarrow> (string \<times> py) list \<Rightarrow> string \<Rightarrow> request" where
  "legacy_request self model_id_chunks ps element =
     post_request (api_url self @ ''/'' @ model_id_chunks ! 0 @ ''/'' @ model_id_chunks ! 1)
       DEFAULT_HEADERS ps None (Some element)"

definition legacy_result :: "env \<Rightarrow> client \<Rightarrow> response \<Rightarrow> exn + py" where
  "legacy_result E self response =
     (if response_contains_jpeg_image E response
      then (case transform_visualisation_bytes E (content response)
                   (output_visualisation_format (inference_configuration self)) of
              Inl e \<Rightarrow> Inl e
            | Inr visualisation \<Rightarrow> Inr (PyDict [(''visualization'', visualisation)]))
      else response_json response)"

fun legacy_loop ::
  "env \<Rightarrow> client \<Rightarrow> string list \<Rightarrow> (string \<times> py) list \<Rightarrow> string list \<Rightarrow> py list \<Rightarrow> request list
     \<Rightarrow> (exn + py list) \<times> request list" where
  "legacy_loop E self chunks ps [] results sent = (Inr results, sent)"
| "legacy_loop E self chunks ps (element # rest) results sent =
     (case send E sent (legacy_request self chunks ps element) of
        (Inl e, sent') \<Rightarrow> (Inl e, sent')
      | (Inr response, sent') \<Rightarrow>
          (case raise_for_status response of
             Inl e \<Rightarrow> (Inl e, sent')
           | Inr _ \<Rightarrow>
               (case legacy_result E self response of
                  Inl e \<Rightarrow> (Inl e, sent')
                | Inr doc \<Rightarrow> legacy_loop E self chunks ps rest (results @ [doc]) sent')))"

text \<open>\<^verbatim>\<open>params\<close> once \<^verbatim>\<open>params.update\<close> has merged the legacy call parameters.\<close>

definition legacy_params :: "client \<Rightarrow> (string \<times> py) list" where
  "legacy_params self =
     dict_update [(''api_key'', PyStr (api_key self))]
       (to_legacy_call_parameters (inference_configuration self))"

text \<open>
  \<^verbatim>\<open>model_id or self.__selected_model\<close> is \<^verbatim>\<open>None\<close> when neither is set, and
  \<^verbatim>\<open>None.split\<close> raises \<^verbatim>\<open>AttributeError\<close>. The message of
  \<^verbatim>\<open>InvalidModelIdentifier\<close> formats the argument \<^verbatim>\<open>model_id\<close>.
\<close>

definition infer_from_legacy_api ::
  "env \<Rightarrow> client \<Rightarrow> inference_input \<Rightarrow> string option \<Rightarrow> request list \<Rightarrow> (exn + py) \<times> request list" where
  "infer_from_legacy_api E self inp model_id sent =
     (case load_static_inference_input E inp of
        Inl e \<Rightarrow> (Inl e, sent)
      | Inr encoded_inference_inputs \<Rightarrow>
          (case str_or model_id (selected_model self) of
             None \<Rightarrow> (Inl AttributeError, sent)
           | Some model_id_to_be_used \<Rightarrow>
               (let model_id_chunks = str_split CHR ''/'' model_id_to_be_used in
                if length model_id_chunks \<noteq> 2
                then (Inl (InvalidModelIdentifier
                             (''Invalid model identifier: '' @ fmt_opt model_id @ '' in use.'')), sent)
                else
                  (case legacy_loop E self model_id_chunks (legacy_params self)
                          encoded_inference_inputs [] sent of
                     (Inl e, sent') \<Rightarrow> (Inl e, sent')
                   | (Inr results, sent') \<Rightarrow>
                       (Inr (unwrap_single_element_list results), sent')))))"

text \<open>The new path: \<open>new_request\<close> and \<open>new_result\<close> are the two halves of the loop body.\<close>

definition new_request :: "client \<Rightarrow> string \<Rightarrow> (string \<times> py) list \<Rightarrow> request" where
  "new_request self endpoint payload =
     post_request (api_url self @ endpoint) DEFAULT_HEADERS [] (Some (PyDict payload)) None"

definition new_result :: "env \<Rightarrow> client \<Rightarrow> response \<Rightarrow> exn + py" where
  "new_result E self response =
     (case response_json response of
        Inl e \<Rightarrow> Inl e
      | Inr parsed_response \<Rightarrow>
          (case py_get parsed_response ''visualization'' of
             Inl e \<Rightarrow> Inl e
           | Inr v \<Rightarrow>
               if v \<noteq> PyNone
               then (case transform_base64_visualisation E v
                            (output_visualisation_format (inference_configuration self)) of
                       Inl e \<Rightarrow> Inl e
                     | Inr decoded \<Rightarrow> py_setitem parsed_response ''visualization'' decoded)
               else Inr parsed_response))"

definition image_of :: "string \<Rightarrow> py" where
  "image_of element = PyDict [(''type'', PyStr ''base64''), (''value'', PyStr element)]"

fun new_loop ::
  "env \<Rightarrow> client \<Rightarrow> string \<Rightarrow> (string \<times> py) list \<Rightarrow> string list \<Rightarrow> py list \<Rightarrow> request list
     \<Rightarrow> (exn + py list) \<times> request list" where
  "new_loop E self endpoint payload [] results sent = (Inr results, sent)"
| "new_loop E self endpoint payload (element # rest) results sent =
     (let payload' = AList.update ''image'' (image_of element) payload in
      case send E sent (new_request self endpoint payload') of
        (Inl e, sent') \<Rightarrow> (Inl e, sent')
      | (Inr response, sent') \<Rightarrow>
          (case raise_for_status response of
             Inl e \<Rightarrow> (Inl e, sent')
           | Inr _ \<Rightarrow>
               (case new_result E self response of
                  Inl e \<Rightarrow> (Inl e, sent')
                | Inr parsed_response \<Rightarrow>
                    new_loop E self endpoint payload' rest (results @ [parsed_response]) sent')))"

definition model_id_value :: "string option \<Rightarrow> py" where
  "model_id_value m = (case m of None \<Rightarrow> PyNone | Some s \<Rightarrow> PyStr s)"

text \<open>
  \<^verbatim>\<open>payload\<close> once \<^verbatim>\<open>payload.update\<close> has merged the call parameters; the table lookup
  between the two statements touches neither.
\<close>

definition new_payload :: "client \<Rightarrow> ModelType \<Rightarrow> string option \<Rightarrow> (string \<times> py) list" where
  "new_payload self model_type_in_use model_id =
     dict_update
       [(''api_key'', PyStr (api_key self)),
        (''model_id'', model_id_value (str_or model_id (selected_model self)))]
       (to_api_call_parameters (inference_configuration self) (client_mode self) model_type_in_use)"

definition infer_from_new_api ::
  "env \<Rightarrow> client \<Rightarrow> inference_input \<Rightarrow> ModelType option \<Rightarrow> string option \<Rightarrow> request list
     \<Rightarrow> (exn + py) \<times> request list" where
  "infer_from_new_api E self inp mt model_id sent =
     (case load_static_inference_input E inp of
        Inl e \<Rightarrow> (Inl e, sent)
      | Inr encoded_inference_inputs \<Rightarrow>
          (let model_type_in_use = type_or mt (model_type self) in
           case map_of NEW_INFERENCE_ENDPOINTS model_type_in_use of
             None \<Rightarrow> (Inl KeyError, sent)
           | Some endpoint \<Rightarrow>
               (case new_loop E self endpoint (new_payload self model_type_in_use model_id)
                       encoded_inference_inputs [] sent of
                  (Inl e, sent') \<Rightarrow> (Inl e, sent')
                | (Inr results, sent') \<Rightarrow>
                    (Inr (unwrap_single_element_list results), sent'))))"

definition predict_body ::
  "env \<Rightarrow> client \<Rightarrow> inference_input \<Rightarrow> ModelType option \<Rightarrow> string option \<Rightarrow> request list
     \<Rightarrow> (exn + py) \<times> request list" where
  "predict_body E self inp mt model_id sent =
     (if client_mode self = LEGACY
      then infer_from_legacy_api E self inp model_id sent
      else infer_from_new_api E self inp mt model_id sent)"

definition predict ::
  "env \<Rightarrow> client \<Rightarrow> inference_input \<Rightarrow> ModelType option \<Rightarrow> string option \<Rightarrow> request list
     \<Rightarrow> (exn + py) \<times> request list" where
  "predict E self inp mt model_id sent =
     (case predict_body E self inp mt model_id sent of
        (outcome, sent') \<Rightarrow> (wrap_errors outcome, sent'))"

section \<open>The client: streaming\<close>

text \<open>
  \<^verbatim>\<open>predict_on_stream\<close> is a generator function: calling it runs none of its body.
  Each \<^verbatim>\<open>next\<close> runs the body up to the next \<^verbatim>\<open>yield\<close>: the first one opens the
  frame source, every one takes one frame from it and calls \<^verbatim>\<open>predict\<close> once. A
  generator that raised or returned is finished. The client is an argument of every
  \<^verbatim>\<open>next\<close>, since the generator reads the object as it is then.
\<close>

datatype stream_gen =
    Created string "ModelType option" "string option"
  | Running "nat \<Rightarrow> string option" nat "ModelType option" "string option"
  | Finished

datatype 'a step = Yield 'a | StopIteration | Raise exn

definition predict_on_stream :: "client \<Rightarrow> string \<Rightarrow> ModelType option \<Rightarrow> string option \<Rightarrow> stream_gen" where
  "predict_on_stream self input_uri mt model_id = Created input_uri mt model_id"

definition advance ::
  "env \<Rightarrow> client \<Rightarrow> (nat \<Rightarrow> string option) \<Rightarrow> nat \<Rightarrow> ModelType option \<Rightarrow> string option \<Rightarrow> request list
     \<Rightarrow> (string \<times> py) step \<times> stream_gen \<times> request list" where
  "advance E self frames i mt model_id sent =
     (case frames i of
        None \<Rightarrow> (StopIteration, Finished, sent)
      | Some frame \<Rightarrow>
          (case predict E self (Single frame) mt model_id sent of
             (Inl e, sent') \<Rightarrow> (Raise e, Finished, sent')
           | (Inr prediction, sent') \<Rightarrow>
               (Yield (frame, prediction), Running frames (Suc i) mt model_id, sent')))"

fun gen_next ::
  "env \<Rightarrow> client \<Rightarrow> stream_gen \<Rightarrow> request list \<Rightarrow> (string \<times> py) step \<times> stream_gen \<times> request list" where
  "gen_next E self (Created input_uri mt model_id) sent =
     advance E self
       (load_stream_inference_input E input_uri
          (image_extensions_for_directory_scan (inference_configuration self)))
       0 mt model_id sent"
| "gen_next E self (Running frames i mt model_id) sent = advance E self frames i mt model_id sent"
| "gen_next E self Finished sent = (StopIteration, Finished, sent)"

text \<open>A consumer that calls \<^verbatim>\<open>next\<close> \<open>n\<close> times, and what it is handed.\<close>

fun pulls ::
  "env \<Rightarrow> client \<Rightarrow> nat \<Rightarrow> stream_gen \<Rightarrow> request list
     \<Rightarrow> (string \<times> py) step list \<times> stream_gen \<times> request list" where
  "pulls E self 0 g sent = ([], g, sent)"
| "pulls E self (Suc n) g sent =
     (case gen_next E self g sent of
        (out, g', sent') \<Rightarrow>
          (case pulls E self n g' sent' of
             (outs, g'', sent'') \<Rightarrow> (out # outs, g'', sent'')))"

section \<open>Notions used in the statements\<close>


text \<open>
  A loop that sends one request per encoded input and collects one document per
  response; the loops of both builders are instances of it (\<open>legacy_loop_exchange\<close>,
  \<open>new_loop_exchange\<close>). \<open>request_of\<close> is the request the active builder makes for
  one encoded input (the legacy one has it as its body, the new one under
  \<^verbatim>\<open>image\<close> in its JSON body), \<open>result_of\<close> what the active builder makes of one
  response.
\<close>

fun exchange_loop ::
  "env \<Rightarrow> (string \<Rightarrow> request) \<Rightarrow> (response \<Rightarrow> exn + py) \<Rightarrow> string list \<Rightarrow> py list \<Rightarrow> request list
     \<Rightarrow> (exn + py list) \<times> request list" where
  "exchange_loop E rq rs [] results sent = (Inr results, sent)"
| "exchange_loop E rq rs (element # rest) results sent =
     (case send E sent (rq element) of
        (Inl e, sent') \<Rightarrow> (Inl e, sent')
      | (Inr response, sent') \<Rightarrow>
          (case raise_for_status response of
             Inl e \<Rightarrow> (Inl e, sent')
           | Inr _ \<Rightarrow>
               (case rs response of
                  Inl e \<Rightarrow> (Inl e, sent')
                | Inr doc \<Rightarrow> exchange_loop E rq rs rest (results @ [doc]) sent')))"

definition request_of :: "client \<Rightarrow> ModelType option \<Rightarrow> string option \<Rightarrow> string \<Rightarrow> request" where
  "request_of self mt model_id element =
     (if client_mode self = LEGACY
      then legacy_request self
             (str_split CHR ''/'' (the (str_or model_id (selected_model self))))
             (legacy_params self) element
      else new_request self
             (the (map_of NEW_INFERENCE_ENDPOINTS (type_or mt (model_type self))))
             (AList.update ''image'' (image_of element)
                (new_payload self (type_or mt (model_type self)) model_id)))"

definition result_of :: "env \<Rightarrow> client \<Rightarrow> response \<Rightarrow> exn + py" where
  "result_of E self response =
     (if client_mode self = LEGACY then legacy_result E self response
      else new_result E self response)"

section \<open>Concrete sessions\<close>

text \<open>
  Servers, collaborators and clients on which the statements below are evaluated. The
  static loader of \<open>example_env\<close> takes an image reference as its own encoding; its
  frame source has two frames.
\<close>

definition json_response :: "int \<Rightarrow> py \<Rightarrow> response" where
  "json_response code doc =
     \<lparr>status_code = code, resp_headers = [''Content-Type'' \<mapsto> ''application/json''],
      body_text = ''{}'', content = ''{}'', json = Some doc, http_error_msg = ''error''\<rparr>"

definition bare_response :: "int \<Rightarrow> string \<Rightarrow> response" where
  "bare_response code body =
     \<lparr>status_code = code, resp_headers = Map.empty,
      body_text = body, content = body, json = None, http_error_msg = ''error''\<rparr>"

definition example_env :: "(request list \<Rightarrow> request \<Rightarrow> exn + response) \<Rightarrow> env" where
  "example_env srv =
     \<lparr>server = srv,
      load_static_inference_input = (\<lambda>inp. Inr (case inp of Single s \<Rightarrow> [s] | Many ss \<Rightarrow> ss)),
      load_stream_inference_input = (\<lambda>uri exts i. if i < 2 then Some (uri @ (if i = 0 then ''#0'' else ''#1'')) else None),
      response_contains_jpeg_image = (\<lambda>r. resp_headers r ''Content-Type'' = Some ''image/jpeg''),
      transform_visualisation_bytes = (\<lambda>bytes fmt. Inr (PyObject bytes)),
      transform_base64_visualisation = (\<lambda>v fmt. Inr (PyObject ''decoded'')),
      ServerInfo_from_dict = Inr,
      RegisteredModels_from_dict = Inr\<rparr>"

definition example_configuration :: InferenceConfiguration where
  "example_configuration =
     \<lparr>image_extensions_for_directory_scan = None, output_visualisation_format = ''numpy'',
      to_legacy_call_parameters = [(''confidence'', PyInt 50)],
      to_api_call_parameters = (\<lambda>mode mt. [(''confidence'', PyFloat ''0.5'')])\<rparr>"

definition example_client :: "HTTPClientMode \<Rightarrow> client" where
  "example_client mode = init example_configuration ''http://host'' ''key'' mode"

definition registry_server :: "request list \<Rightarrow> request \<Rightarrow> exn + response" where
  "registry_server sent req = Inr (json_response 200 (PyDict [(''models'', PyList [])]))"

definition broken_server :: "request list \<Rightarrow> request \<Rightarrow> exn + response" where
  "broken_server sent req = Inr (bare_response 500 ''boom'')"

definition echo_server :: "request list \<Rightarrow> request \<Rightarrow> exn + response" where
  "echo_server sent req = Inr (json_response 200 (PyDict [(''predictions'', PyList [])]))"

definition stream_outs :: "(string \<times> py) step list" where
  "stream_outs =
     [Yield (''cam#0'', PyDict [(''predictions'', PyList [])]),
      Yield (''cam#1'', PyDict [(''predictions'', PyList [])]),
      StopIteration]"

section \<open>Registry operations and the session state\<close>


lemma raise_for_status_cases:
  "raise_for_status r = Inr () \<or> raise_for_status r = Inl (HTTPError (http_error_msg r) r)"
  by (simp add: raise_for_status_def)






lemma wrap_errors_Inr_iff: "wrap_errors x = Inr v \<longleftrightarrow> x = Inr v"
  by (cases x rule: wrap_errors.cases) (auto split: sum.splits)

lemma decorate_Inr_iff:
  "decorate eff = (Inr v, self', sent') \<longleftrightarrow> eff = (Inr v, self', sent')"
  by (cases eff) (auto simp: decorate_def wrap_errors_Inr_iff)

text \<open>
  Claim C7. When the call returns, \<^verbatim>\<open>load_model\<close> with \<^verbatim>\<open>set_as_default=True\<close>
  makes the loaded identifier and category the defaults; \<^verbatim>\<open>unload_model\<close> clears the
  defaults (no identifier, and the category \<^verbatim>\<open>__init__\<close> starts with) when the unloaded
  identifier is the current default and leaves the client as it was when it is not;
  \<^verbatim>\<open>unload_all_models\<close> clears them whatever they were.
\<close>

theorem registry_effects_on_success:
  "(load_model E self m mt True sent = (Inr v, self', sent') \<longrightarrow>
      self' = self\<lparr>selected_model := Some m, model_type := mt\<rparr>)
   \<and> (unload_model E self m sent = (Inr v, self', sent') \<longrightarrow>
      (Some m = selected_model self \<longrightarrow>
         self' = self\<lparr>selected_model := None, model_type := OBJECT_DETECTION\<rparr>)
      \<and> (Some m \<noteq> selected_model self \<longrightarrow> self' = self))
   \<and> (unload_all_models E self sent = (Inr v, self', sent') \<longrightarrow>
      self' = self\<lparr>selected_model := None, model_type := OBJECT_DETECTION\<rparr>)"
proof (intro conjI impI)
  assume "load_model E self m mt True sent = (Inr v, self', sent')"
  then have "load_model_body E self m mt True sent = (Inr v, self', sent')"
    by (simp add: load_model_def decorate_Inr_iff)
  then show "self' = self\<lparr>selected_model := Some m, model_type := mt\<rparr>"
    by (auto simp: load_model_body_def send_def split: sum.splits)
next
  assume "unload_model E self m sent = (Inr v, self', sent')"
  then have b: "unload_model_body E self m sent = (Inr v, self', sent')"
    by (simp add: unload_model_def decorate_Inr_iff)
  {
    assume "Some m = selected_model self"
    with b show "self' = self\<lparr>selected_model := None, model_type := OBJECT_DETECTION\<rparr>"
      by (auto simp: unload_model_body_def send_def split: sum.splits)
  next
    assume "Some m \<noteq> selected_model self"
    with b show "self' = self"
      by (auto simp: unload_model_body_def send_def split: sum.splits)
  }
next
  assume "unload_all_models E self sent = (Inr v, self', sent')"
  then have "unload_all_models_body E self sent = (Inr v, self', sent')"
    by (simp add: unload_all_models_def decorate_Inr_iff)
  then show "self' = self\<lparr>selected_model := None, model_type := OBJECT_DETECTION\<rparr>"
    by (auto simp: unload_all_models_body_def send_def split: sum.splits)
qed

theorem registry_effects_on_success_witness:
  "load_model (example_env registry_server) (example_client NEW) ''a/1'' CLASSIFICATION True []
     = (Inr (PyDict [(''models'', PyList [])]),
        (example_client NEW)\<lparr>selected_model := Some ''a/1'', model_type := CLASSIFICATION\<rparr>,
        [load_model_request (example_client NEW) ''a/1''])
   \<and> unload_model (example_env registry_server)
        (use_model (example_client NEW) ''a/1'' CLASSIFICATION) ''a/1'' []
     = (Inr (PyDict [(''models'', PyList [])]),
        (use_model (example_client NEW) ''a/1'' CLASSIFICATION)
          \<lparr>selected_model := None, model_type := OBJECT_DETECTION\<rparr>,
        [unload_model_request (use_model (example_client NEW) ''a/1'' CLASSIFICATION) ''a/1''])
   \<and> unload_model (example_env registry_server)
        (use_model (example_client NEW) ''a/1'' CLASSIFICATION) ''b/2'' []
     = (Inr (PyDict [(''models'', PyList [])]),
        use_model (example_client NEW) ''a/1'' CLASSIFICATION,
        [unload_model_request (use_model (example_client NEW) ''a/1'' CLASSIFICATION) ''b/2''])
   \<and> unload_all_models (example_env registry_server)
        (use_model (example_client NEW) ''a/1'' CLASSIFICATION) []
     = (Inr (PyDict [(''models'', PyList [])]),
        (use_model (example_client NEW) ''a/1'' CLASSIFICATION)
          \<lparr>selected_model := None, model_type := OBJECT_DETECTION\<rparr>,
        [unload_all_models_request (use_model (example_client NEW) ''a/1'' CLASSIFICATION)])"
proof -
  let ?E = "example_env registry_server"
  let ?c = "use_model (example_client NEW) ''a/1'' CLASSIFICATION"
  let ?doc = "PyDict [(''models'', PyList [])]"
  note ev = decorate_def send_def example_env_def registry_server_def json_response_def
    raise_for_status_def response_json_def use_model_def
  have l: "load_model ?E (example_client NEW) ''a/1'' CLASSIFICATION True []
     = (Inr ?doc, (example_client NEW)\<lparr>selected_model := Some ''a/1'', model_type := CLASSIFICATION\<rparr>,
        [load_model_request (example_client NEW) ''a/1''])"
    by (simp add: load_model_def load_model_body_def ev)
  have u: "unload_model ?E ?c ''a/1'' []
     = (Inr ?doc, ?c\<lparr>selected_model := None, model_type := OBJECT_DETECTION\<rparr>,
        [unload_model_request ?c ''a/1''])"
    by (simp add: unload_model_def unload_model_body_def ev)
  have u': "unload_model ?E ?c ''b/2'' [] = (Inr ?doc, ?c, [unload_model_request ?c ''b/2''])"
    by (simp add: unload_model_def unload_model_body_def ev)
  have a: "unload_all_models ?E ?c []
     = (Inr ?doc, ?c\<lparr>selected_model := None, model_type := OBJECT_DETECTION\<rparr>,
        [unload_all_models_request ?c])"
    by (simp add: unload_all_models_def unload_all_models_body_def ev)
  note t = registry_effects_on_success
  show ?thesis
    using l u u' a
      t [THEN conjunct1, rule_format, OF l]
      t [THEN conjunct2, THEN conjunct1, rule_format, OF u]
      t [THEN conjunct2, THEN conjunct1, rule_format, OF u']
      t [THEN conjunct2, THEN conjunct2, rule_format, OF a]
    by simp
qed

section \<open>The error-translation boundary\<close>



text \<open>
  With the header present the boundary raises \<^verbatim>\<open>HTTPCallErrorError\<close> with the status
  code of the response: the message is the body text when the header does not mention
  JSON, and the \<^verbatim>\<open>message\<close> entry of the parsed object (\<^verbatim>\<open>None\<close> without one) when
  it does.
\<close>

lemma wrap_errors_plain_text:
  "resp_headers r ''Content-Type'' = Some ct \<Longrightarrow> \<not> str_in ''application/json'' ct \<Longrightarrow>
   wrap_errors (Inl (HTTPError description r) :: exn + 'a)
     = Inl (HTTPCallErrorError description (status_code r) (PyStr (body_text r)))"
  by simp

lemma wrap_errors_json_message:
  "resp_headers r ''Content-Type'' = Some ct \<Longrightarrow> str_in ''application/json'' ct \<Longrightarrow>
   json r = Some (PyDict kvs) \<Longrightarrow>
   wrap_errors (Inl (HTTPError description r) :: exn + 'a)
     = Inl (HTTPCallErrorError description (status_code r)
              (case map_of kvs ''message'' of None \<Rightarrow> PyNone | Some v \<Rightarrow> v))"
  by (simp add: response_json_def)

text \<open>
  Claim C3. A server that answers 500 with the body \<^verbatim>\<open>boom\<close> and no \<^verbatim>\<open>Content-Type\<close>
  header: the content type is not JSON, so the claim asks for an
  \<^verbatim>\<open>HTTPCallErrorError\<close> with status 500 and message \<^verbatim>\<open>boom\<close>; both an administrative
  call and an inference call end in \<^verbatim>\<open>TypeError\<close> instead.
\<close>

theorem remote_failure_without_content_type:
  "get_server_info (example_env broken_server) (example_client NEW) []
     = (Inl TypeError, example_client NEW, [get_request ''http://host/info''])
   \<and> predict (example_env broken_server) (use_model (example_client NEW) ''a/1'' OBJECT_DETECTION)
        (Single ''img'') None None []
     = (Inl TypeError,
        [new_request (use_model (example_client NEW) ''a/1'' OBJECT_DETECTION)
           ''/infer/object_detection''
           [(''api_key'', PyStr ''key''), (''model_id'', PyStr ''a/1''),
            (''confidence'', PyFloat ''0.5''),
            (''image'', PyDict [(''type'', PyStr ''base64''), (''value'', PyStr ''img'')])]])"
  by (simp add: get_server_info_def get_server_info_body_def decorate_def send_def
      example_env_def broken_server_def bare_response_def raise_for_status_def
      example_client_def init_def predict_def predict_body_def infer_from_new_api_def
      use_model_def NEW_INFERENCE_ENDPOINTS_def dict_update_def example_configuration_def
      model_id_value_def image_of_def new_payload_def)

section \<open>Request building: the model identifier\<close>

lemma str_split_length: "length (str_split sep s) = Suc (count_list s sep)"
  by (induction s) (auto split: list.splits)




text \<open>
  Claim C1, as stated, at the identifier \<^verbatim>\<open>a/\<close>: its second segment is empty, yet the
  legacy call raises nothing, sends its request to \<^verbatim>\<open>http://host/a/\<close> and returns the
  server's document.
\<close>

theorem empty_segment_passes_validation:
  "str_split CHR ''/'' ''a/'' = [''a'', '''']
   \<and> predict (example_env echo_server) (example_client LEGACY) (Single ''img'') None (Some ''a/'') []
     = (Inr (PyDict [(''predictions'', PyList [])]),
        [\<lparr>verb = POST, url = ''http://host/a/'', headers = [(''Content-Type'', ''application/json'')],
          params = [(''api_key'', PyStr ''key''), (''confidence'', PyInt 50)],
          json_body = None, data = Some ''img''\<rparr>])"
  by (simp add: predict_def predict_body_def infer_from_legacy_api_def example_env_def
      example_client_def init_def echo_server_def json_response_def legacy_params_def
      dict_update_def example_configuration_def legacy_request_def post_request_def send_def
      raise_for_status_def legacy_result_def response_json_def unwrap_single_element_list_def
      DEFAULT_HEADERS_def)

text \<open>
  Claim C1, amended. In legacy mode, once the inputs are encoded, a resolved identifier
  that does not contain exactly one \<^verbatim>\<open>/\<close> makes the call raise
  \<^verbatim>\<open>InvalidModelIdentifier\<close> with no request sent: the requests sent are those sent
  before the call. The check counts the segments and does not look into them.
\<close>

theorem legacy_identifier_without_one_slash:
  assumes "client_mode self = LEGACY"
    and "load_static_inference_input E inp = Inr es"
    and "str_or model_id (selected_model self) = Some m"
    and "count_list m CHR ''/'' \<noteq> 1"
  shows "predict E self inp mt model_id sent
     = (Inl (InvalidModelIdentifier (''Invalid model identifier: '' @ fmt_opt model_id @ '' in use.'')),
        sent)"
  using assms
  by (simp add: predict_def predict_body_def infer_from_legacy_api_def str_split_length)

theorem legacy_identifier_without_one_slash_witness:
  "client_mode (example_client LEGACY) = LEGACY
   \<and> load_static_inference_input (example_env echo_server) (Single ''img'') = Inr [''img'']
   \<and> str_or (Some ''a/b/c'') (selected_model (example_client LEGACY)) = Some ''a/b/c''
   \<and> count_list ''a/b/c'' CHR ''/'' \<noteq> 1
   \<and> predict (example_env echo_server) (example_client LEGACY) (Single ''img'') None (Some ''a/b/c'') []
     = (Inl (InvalidModelIdentifier ''Invalid model identifier: a/b/c in use.''), [])"
proof -
  have h: "client_mode (example_client LEGACY) = LEGACY"
    "load_static_inference_input (example_env echo_server) (Single ''img'') = Inr [''img'']"
    "str_or (Some ''a/b/c'') (selected_model (example_client LEGACY)) = Some ''a/b/c''"
    "count_list ''a/b/c'' CHR ''/'' \<noteq> 1"
    by (simp_all add: example_client_def init_def example_env_def)
  show ?thesis
    using h legacy_identifier_without_one_slash [OF h, of None "[]"]
    by simp
qed




section \<open>Results of an inference call\<close>




lemma legacy_loop_exchange:
  "legacy_loop E self chunks ps es results sent
     = exchange_loop E (legacy_request self chunks ps) (legacy_result E self) es results sent"
  by (induction es arbitrary: results sent) (auto split: prod.splits sum.splits)

lemma new_loop_exchange:
  "new_loop E self endpoint payload es results sent
     = exchange_loop E (\<lambda>element. new_request self endpoint
                           (AList.update ''image'' (image_of element) payload))
         (new_result E self) es results sent"
  by (induction es arbitrary: payload results sent)
     (auto simp: Let_def split: prod.splits sum.splits)

lemma exchange_loop_Inr:
  "exchange_loop E rq rs es results sent = (Inr out, sent') \<Longrightarrow>
   \<exists>docs. out = results @ docs \<and> length docs = length es \<and> sent' = sent @ map rq es
     \<and> (\<forall>i<length es. \<exists>r. server E (sent @ map rq (take i es)) (rq (es ! i)) = Inr r
                            \<and> rs r = Inr (docs ! i))"
proof (induction es arbitrary: results sent)
  case Nil
  then show ?case by simp
next
  case (Cons element es)
  from Cons.prems obtain r0 d where
    r0: "server E sent (rq element) = Inr r0" and d: "rs r0 = Inr d"
    and rec: "exchange_loop E rq rs es (results @ [d]) (sent @ [rq element]) = (Inr out, sent')"
    by (auto simp: send_def split: sum.splits)
  from Cons.IH [OF rec] obtain docs where
    out: "out = (results @ [d]) @ docs" and len: "length docs = length es"
    and log: "sent' = (sent @ [rq element]) @ map rq es"
    and each: "\<forall>i<length es. \<exists>r. server E ((sent @ [rq element]) @ map rq (take i es)) (rq (es ! i)) = Inr r
                            \<and> rs r = Inr (docs ! i)"
    by blast
  have "\<forall>i<length (element # es).
          \<exists>r. server E (sent @ map rq (take i (element # es))) (rq ((element # es) ! i)) = Inr r
               \<and> rs r = Inr ((d # docs) ! i)"
  proof (intro allI impI)
    fix i assume i: "i < length (element # es)"
    show "\<exists>r. server E (sent @ map rq (take i (element # es))) (rq ((element # es) ! i)) = Inr r
               \<and> rs r = Inr ((d # docs) ! i)"
    proof (cases i)
      case 0
      with r0 d show ?thesis by simp
    next
      case (Suc j)
      with i have "j < length es" by simp
      with each Suc show ?thesis by simp
    qed
  qed
  with out len log show ?case
    by (intro exI [of _ "d # docs"]) simp
qed

lemma unwrap_single_element_list_cases:
  "(length docs = 1 \<longrightarrow> unwrap_single_element_list docs = docs ! 0)
   \<and> (length docs \<noteq> 1 \<longrightarrow> unwrap_single_element_list docs = PyList docs)"
  by (simp add: unwrap_single_element_list_def)

lemma infer_from_legacy_api_Inr:
  assumes "load_static_inference_input E inp = Inr es"
    and "infer_from_legacy_api E self inp model_id sent = (Inr res, sent')"
  shows "\<exists>m results. str_or model_id (selected_model self) = Some m
     \<and> exchange_loop E (legacy_request self (str_split CHR ''/'' m) (legacy_params self))
           (legacy_result E self) es [] sent = (Inr results, sent')
     \<and> res = unwrap_single_element_list results"
  using assms
  by (auto simp: infer_from_legacy_api_def Let_def legacy_loop_exchange
      split: option.splits if_splits prod.splits sum.splits)

lemma infer_from_new_api_Inr:
  assumes "load_static_inference_input E inp = Inr es"
    and "infer_from_new_api E self inp mt model_id sent = (Inr res, sent')"
  shows "\<exists>endpoint results.
       map_of NEW_INFERENCE_ENDPOINTS (type_or mt (model_type self)) = Some endpoint
     \<and> exchange_loop E
           (\<lambda>element. new_request self endpoint
              (AList.update ''image'' (image_of element)
                 (new_payload self (type_or mt (model_type self)) model_id)))
           (new_result E self) es [] sent = (Inr results, sent')
     \<and> res = unwrap_single_element_list results"
  using assms
  by (auto simp: infer_from_new_api_def Let_def new_loop_exchange
      split: option.splits if_splits prod.splits sum.splits)

text \<open>
  Claim C4. An inference call, in either mode, whose batch encodes to \<open>es\<close> and which
  returns: it has sent one request per encoded input, in input order, each made from its
  input; there is one document per input, the \<open>i\<close>-th being what the builder makes of
  the response to the \<open>i\<close>-th request; and the call returns the bare document when the
  batch has one element, the list of the documents in that order when it has two or
  more.
\<close>

theorem batch_results_follow_inputs:
  assumes "load_static_inference_input E inp = Inr es"
    and "predict E self inp mt model_id sent = (Inr res, sent')"
  shows "\<exists>docs. length docs = length es
      \<and> sent' = sent @ map (request_of self mt model_id) es
      \<and> (\<forall>i<length es.
            \<exists>r. server E (sent @ map (request_of self mt model_id) (take i es))
                   (request_of self mt model_id (es ! i)) = Inr r
                \<and> result_of E self r = Inr (docs ! i))
      \<and> (length es = 1 \<longrightarrow> res = docs ! 0)
      \<and> (2 \<le> length es \<longrightarrow> res = PyList docs)"
proof -
  from assms(2) have body: "predict_body E self inp mt model_id sent = (Inr res, sent')"
    by (cases "predict_body E self inp mt model_id sent")
       (simp add: predict_def wrap_errors_Inr_iff)
  have "\<exists>results. exchange_loop E (request_of self mt model_id) (result_of E self) es [] sent
                    = (Inr results, sent')
                  \<and> res = unwrap_single_element_list results"
  proof (cases "client_mode self")
    case LEGACY
    with body have "infer_from_legacy_api E self inp model_id sent = (Inr res, sent')"
      by (simp add: predict_body_def)
    from infer_from_legacy_api_Inr [OF assms(1) this] LEGACY show ?thesis
      by (auto simp: request_of_def [abs_def] result_of_def [abs_def])
  next
    case NEW
    with body have "infer_from_new_api E self inp mt model_id sent = (Inr res, sent')"
      by (simp add: predict_body_def)
    from infer_from_new_api_Inr [OF assms(1) this] NEW show ?thesis
      by (auto simp: request_of_def [abs_def] result_of_def [abs_def])
  qed
  then obtain results where
    loop: "exchange_loop E (request_of self mt model_id) (result_of E self) es [] sent
             = (Inr results, sent')"
    and res: "res = unwrap_single_element_list results"
    by blast
  from exchange_loop_Inr [OF loop] obtain docs where
    "results = docs" "length docs = length es"
    "sent' = sent @ map (request_of self mt model_id) es"
    "\<forall>i<length es.
        \<exists>r. server E (sent @ map (request_of self mt model_id) (take i es))
               (request_of self mt model_id (es ! i)) = Inr r
            \<and> result_of E self r = Inr (docs ! i)"
    by auto
  with res unwrap_single_element_list_cases [of docs] show ?thesis
    by (intro exI [of _ docs]) auto
qed

theorem batch_results_follow_inputs_witness:
  "load_static_inference_input (example_env echo_server) (Single ''x'') = Inr [''x'']
   \<and> fst (predict (example_env echo_server) (example_client LEGACY) (Single ''x'') None (Some ''a/1'') [])
       = Inr (PyDict [(''predictions'', PyList [])])
   \<and> (\<exists>docs. length docs = length [''x'']
      \<and> snd (predict (example_env echo_server) (example_client LEGACY) (Single ''x'') None (Some ''a/1'') [])
          = [] @ map (request_of (example_client LEGACY) None (Some ''a/1'')) [''x'']
      \<and> (\<forall>i<length [''x''].
            \<exists>r. server (example_env echo_server)
                   ([] @ map (request_of (example_client LEGACY) None (Some ''a/1'')) (take i [''x'']))
                   (request_of (example_client LEGACY) None (Some ''a/1'') ([''x''] ! i)) = Inr r
                \<and> result_of (example_env echo_server) (example_client LEGACY) r = Inr (docs ! i))
      \<and> (length [''x''] = 1 \<longrightarrow> PyDict [(''predictions'', PyList [])] = docs ! 0)
      \<and> (2 \<le> length [''x''] \<longrightarrow> PyDict [(''predictions'', PyList [])] = PyList docs))
   \<and> load_static_inference_input (example_env echo_server) (Many [''x'', ''y'']) = Inr [''x'', ''y'']
   \<and> fst (predict (example_env echo_server) (example_client NEW) (Many [''x'', ''y'']) None (Some ''a/1'') [])
       = Inr (PyList [PyDict [(''predictions'', PyList [])], PyDict [(''predictions'', PyList [])]])
   \<and> (\<exists>docs. length docs = length [''x'', ''y'']
      \<and> snd (predict (example_env echo_server) (example_client NEW) (Many [''x'', ''y'']) None (Some ''a/1'') [])
          = [] @ map (request_of (example_client NEW) None (Some ''a/1'')) [''x'', ''y'']
      \<and> (\<forall>i<length [''x'', ''y''].
            \<exists>r. server (example_env echo_server)
                   ([] @ map (request_of (example_client NEW) None (Some ''a/1'')) (take i [''x'', ''y'']))
                   (request_of (example_client NEW) None (Some ''a/1'') ([''x'', ''y''] ! i)) = Inr r
                \<and> result_of (example_env echo_server) (example_client NEW) r = Inr (docs ! i))
      \<and> (length [''x'', ''y''] = 1 \<longrightarrow>
            PyList [PyDict [(''predictions'', PyList [])], PyDict [(''predictions'', PyList [])]] = docs ! 0)
      \<and> (2 \<le> length [''x'', ''y''] \<longrightarrow>
            PyList [PyDict [(''predictions'', PyList [])], PyDict [(''predictions'', PyList [])]]
              = PyList docs))"
proof -
  let ?E = "example_env echo_server"
  let ?doc = "PyDict [(''predictions'', PyList [])]"
  let ?one = "predict ?E (example_client LEGACY) (Single ''x'') None (Some ''a/1'') []"
  let ?two = "predict ?E (example_client NEW) (Many [''x'', ''y'']) None (Some ''a/1'') []"
  have e1: "load_static_inference_input ?E (Single ''x'') = Inr [''x'']"
    and e2: "load_static_inference_input ?E (Many [''x'', ''y'']) = Inr [''x'', ''y'']"
    by (simp_all add: example_env_def)
  have f1: "fst ?one = Inr ?doc"
    by (simp add: predict_def predict_body_def infer_from_legacy_api_def example_env_def
        example_client_def init_def echo_server_def json_response_def legacy_params_def
        dict_update_def example_configuration_def legacy_request_def post_request_def send_def
        raise_for_status_def legacy_result_def response_json_def unwrap_single_element_list_def
        DEFAULT_HEADERS_def)
  have f2: "fst ?two = Inr (PyList [?doc, ?doc])"
    by (simp add: predict_def predict_body_def infer_from_new_api_def example_env_def
        example_client_def init_def echo_server_def json_response_def new_payload_def
        dict_update_def example_configuration_def new_request_def post_request_def send_def
        raise_for_status_def new_result_def response_json_def unwrap_single_element_list_def
        DEFAULT_HEADERS_def NEW_INFERENCE_ENDPOINTS_def model_id_value_def image_of_def)
  have p1: "?one = (Inr ?doc, snd ?one)"
    using f1 by (metis prod.collapse)
  have p2: "?two = (Inr (PyList [?doc, ?doc]), snd ?two)"
    using f2 by (metis prod.collapse)
  show ?thesis
    using e1 f1 e2 f2
      batch_results_follow_inputs [OF e1 p1]
      batch_results_follow_inputs [OF e2 p2]
    by blast
qed

lemma request_of_carries_input:
  "(client_mode self = LEGACY \<longrightarrow> data (request_of self mt model_id element) = Some element)
   \<and> (client_mode self = NEW \<longrightarrow>
        (\<exists>payload. json_body (request_of self mt model_id element) = Some (PyDict payload)
                   \<and> map_of payload ''image'' = Some (image_of element)))"
  by (simp add: request_of_def legacy_request_def new_request_def post_request_def
      AList.update_conv')




section \<open>Streaming\<close>

lemma pulls_snoc:
  "pulls E self (Suc n) g sent =
     (case pulls E self n g sent of
        (outs, g', sent') \<Rightarrow>
          (case gen_next E self g' sent' of
             (out, g'', sent'') \<Rightarrow> (outs @ [out], g'', sent'')))"
proof (induction n arbitrary: g sent)
  case 0
  show ?case by (simp split: prod.splits)
next
  case (Suc n)
  obtain out g1 s1 where step: "gen_next E self g sent = (out, g1, s1)"
    by (cases "gen_next E self g sent") auto
  have "pulls E self (Suc (Suc n)) g sent =
          (case pulls E self (Suc n) g1 s1 of (outs, g'', s'') \<Rightarrow> (out # outs, g'', s''))"
    using step by simp
  also have "\<dots> =
      (case pulls E self n g1 s1 of
         (outs, g', sent') \<Rightarrow>
           (case gen_next E self g' sent' of
              (out', g'', sent'') \<Rightarrow> (out # outs @ [out'], g'', sent'')))"
    by (simp only: Suc.IH [of g1 s1]) (simp split: prod.splits)
  also have "\<dots> =
      (case pulls E self (Suc n) g sent of
        (outs, g', sent') \<Rightarrow>
          (case gen_next E self g' sent' of
             (out, g'', sent'') \<Rightarrow> (outs @ [out], g'', sent'')))"
    using step by (simp split: prod.splits)
  finally show ?case .
qed

lemma advance_Some:
  assumes "frames i = Some frame"
    and "advance E self frames i mt model_id sent = (out, g, sent')"
    and "\<forall>e. out \<noteq> Raise e"
  shows "\<exists>prediction. predict E self (Single frame) mt model_id sent = (Inr prediction, sent')
           \<and> out = Yield (frame, prediction) \<and> g = Running frames (Suc i) mt model_id"
  using assms by (auto simp: advance_def split: prod.splits sum.splits)

lemma advance_None:
  "frames i = None \<Longrightarrow> advance E self frames i mt model_id sent = (StopIteration, Finished, sent)"
  by (simp add: advance_def)

lemma pulls_Suc_fst:
  "\<exists>out. fst (pulls E self (Suc n) g sent) = fst (pulls E self n g sent) @ [out]"
  by (simp only: pulls_snoc) (auto split: prod.splits)

lemma pulls_length: "length (fst (pulls E self n g sent)) = n"
proof (induction n)
  case 0
  show ?case by simp
next
  case (Suc n)
  obtain out where "fst (pulls E self (Suc n) g sent) = fst (pulls E self n g sent) @ [out]"
    using pulls_Suc_fst by blast
  with Suc show ?case by simp
qed

lemma pulls_take:
  "n \<le> m \<Longrightarrow> fst (pulls E self n g sent) = take n (fst (pulls E self m g sent))"
proof (induction m)
  case 0
  then show ?case by simp
next
  case (Suc m)
  obtain out where "fst (pulls E self (Suc m) g sent) = fst (pulls E self m g sent) @ [out]"
    using pulls_Suc_fst by blast
  with Suc pulls_length [of E self m g sent] pulls_length [of E self "Suc m" g sent]
  show ?case
    by (cases "n = Suc m") auto
qed

lemma stream_invariant:
  assumes fr: "frames = load_stream_inference_input E input_uri
                 (image_extensions_for_directory_scan (inference_configuration self))"
    and src: "\<forall>i<K. frames i = Some (fs ! i)"
  shows "n \<le> K \<Longrightarrow>
     (\<forall>e. Raise e \<notin> set (fst (pulls E self n (predict_on_stream self input_uri mt model_id) sent))) \<Longrightarrow>
     length (fst (pulls E self n (predict_on_stream self input_uri mt model_id) sent)) = n
     \<and> (\<forall>s. gen_next E self
               (fst (snd (pulls E self n (predict_on_stream self input_uri mt model_id) sent))) s
             = advance E self frames n mt model_id s)
     \<and> (0 < n \<longrightarrow> fst (snd (pulls E self n (predict_on_stream self input_uri mt model_id) sent))
                    = Running frames n mt model_id)
     \<and> (\<forall>i<n. \<exists>p.
            fst (pulls E self n (predict_on_stream self input_uri mt model_id) sent) ! i
              = Yield (fs ! i, p)
          \<and> predict E self (Single (fs ! i)) mt model_id
               (snd (snd (pulls E self i (predict_on_stream self input_uri mt model_id) sent)))
              = (Inr p,
                 snd (snd (pulls E self (Suc i) (predict_on_stream self input_uri mt model_id) sent))))"
proof (induction n)
  case 0
  show ?case using fr by (simp add: predict_on_stream_def)
next
  case (Suc n)
  let ?g0 = "predict_on_stream self input_uri mt model_id"
  obtain outs g' s' where Gn: "pulls E self n ?g0 sent = (outs, g', s')"
    by (cases "pulls E self n ?g0 sent") auto
  obtain out g'' s'' where step: "gen_next E self g' s' = (out, g'', s'')"
    by (cases "gen_next E self g' s'") auto
  have GS: "pulls E self (Suc n) ?g0 sent = (outs @ [out], g'', s'')"
    using Gn step by (simp only: pulls_snoc) simp
  from Suc.prems(2) GS have ok: "\<forall>e. Raise e \<notin> set outs" and out: "\<forall>e. out \<noteq> Raise e"
    by auto
  from Suc.prems(1) have "n \<le> K" by simp
  from Suc.IH [OF this] ok Gn have
    len: "length outs = n"
    and nxt: "\<forall>s. gen_next E self g' s = advance E self frames n mt model_id s"
    and each: "\<forall>i<n. \<exists>p. outs ! i = Yield (fs ! i, p)
          \<and> predict E self (Single (fs ! i)) mt model_id (snd (snd (pulls E self i ?g0 sent)))
              = (Inr p, snd (snd (pulls E self (Suc i) ?g0 sent)))"
    by simp_all
  from Suc.prems(1) src have f: "frames n = Some (fs ! n)" by simp
  from nxt step have "advance E self frames n mt model_id s' = (out, g'', s'')" by simp
  from advance_Some [OF f this out] obtain p where
    p: "predict E self (Single (fs ! n)) mt model_id s' = (Inr p, s'')"
    and y: "out = Yield (fs ! n, p)" and g: "g'' = Running frames (Suc n) mt model_id"
    by blast
  have "\<forall>i<Suc n. \<exists>p. (outs @ [out]) ! i = Yield (fs ! i, p)
          \<and> predict E self (Single (fs ! i)) mt model_id (snd (snd (pulls E self i ?g0 sent)))
              = (Inr p, snd (snd (pulls E self (Suc i) ?g0 sent)))"
  proof (intro allI impI)
    fix i assume "i < Suc n"
    show "\<exists>p. (outs @ [out]) ! i = Yield (fs ! i, p)
          \<and> predict E self (Single (fs ! i)) mt model_id (snd (snd (pulls E self i ?g0 sent)))
              = (Inr p, snd (snd (pulls E self (Suc i) ?g0 sent)))"
    proof (cases "i < n")
      case True
      with each len show ?thesis by (simp add: nth_append)
    next
      case False
      with \<open>i < Suc n\<close> have "i = n" by simp
      with p y len Gn GS show ?thesis by (simp add: nth_append)
    qed
  qed
  with len g GS show ?case by simp
qed

text \<open>
  Claim C8. A frame source that gives the \<open>K\<close> frames \<open>fs\<close> and is then exhausted, and a
  consumer that calls \<^verbatim>\<open>next\<close> \<open>K + 1\<close> times without any of the calls raising (every
  per-frame inference call returned): it is handed exactly \<open>K\<close> pairs and then
  \<^verbatim>\<open>StopIteration\<close>, after which the generator is finished; the frame of the \<open>i\<close>-th pair
  is the \<open>i\<close>-th frame of the source and its result is what \<^verbatim>\<open>predict\<close> returned for that
  frame. The pairs come one per \<^verbatim>\<open>next\<close>: a consumer that has called \<^verbatim>\<open>next\<close> \<open>i + 1\<close>
  times holds the first \<open>i + 1\<close> pairs and nothing else, the source has given \<open>i + 1\<close>
  frames, and the inference call for frame \<open>i\<close> started from the requests sent by the
  first \<open>i\<close> calls of \<^verbatim>\<open>next\<close> and ended with those sent by the first \<open>i + 1\<close>.
\<close>

theorem predict_on_stream_pairs:
  assumes "frames = load_stream_inference_input E input_uri
             (image_extensions_for_directory_scan (inference_configuration self))"
    and "length fs = K"
    and "\<forall>i<K. frames i = Some (fs ! i)"
    and "frames K = None"
    and "pulls E self (Suc K) (predict_on_stream self input_uri mt model_id) sent = (outs, g, sent')"
    and "\<forall>e. Raise e \<notin> set outs"
  shows "length outs = Suc K \<and> outs ! K = StopIteration \<and> g = Finished
     \<and> (\<forall>i<K. \<exists>prediction.
           outs ! i = Yield (fs ! i, prediction)
         \<and> predict E self (Single (fs ! i)) mt model_id
              (snd (snd (pulls E self i (predict_on_stream self input_uri mt model_id) sent)))
             = (Inr prediction,
                snd (snd (pulls E self (Suc i) (predict_on_stream self input_uri mt model_id) sent)))
         \<and> fst (pulls E self (Suc i) (predict_on_stream self input_uri mt model_id) sent)
             = take (Suc i) outs
         \<and> fst (snd (pulls E self (Suc i) (predict_on_stream self input_uri mt model_id) sent))
             = Running frames (Suc i) mt model_id)"
proof -
  let ?g0 = "predict_on_stream self input_uri mt model_id"
  have outs: "fst (pulls E self (Suc K) ?g0 sent) = outs"
    using assms(5) by simp
  have pre: "fst (pulls E self n ?g0 sent) = take n outs" if "n \<le> Suc K" for n
    using pulls_take [OF that, of E self ?g0 sent] outs by simp
  have ok: "\<forall>e. Raise e \<notin> set (fst (pulls E self n ?g0 sent))" if "n \<le> Suc K" for n
    using pre [OF that] assms(6) by (auto dest: in_set_takeD)
  note inv = stream_invariant [OF assms(1) assms(3), of _ mt model_id sent]
  obtain outsK gK sK where GK: "pulls E self K ?g0 sent = (outsK, gK, sK)"
    by (cases "pulls E self K ?g0 sent") auto
  from inv [of K] ok [of K] GK have
    lenK: "length outsK = K"
    and nxt: "\<forall>s. gen_next E self gK s = advance E self frames K mt model_id s"
    and each: "\<forall>i<K. \<exists>p. outsK ! i = Yield (fs ! i, p)
          \<and> predict E self (Single (fs ! i)) mt model_id (snd (snd (pulls E self i ?g0 sent)))
              = (Inr p, snd (snd (pulls E self (Suc i) ?g0 sent)))"
    by simp_all
  have last: "gen_next E self gK sK = (StopIteration, Finished, sK)"
    using nxt advance_None [of frames K E self mt model_id sK] assms(4) by simp
  have full: "pulls E self (Suc K) ?g0 sent = (outsK @ [StopIteration], Finished, sK)"
    using GK last by (simp only: pulls_snoc) simp
  with assms(5) have o: "outs = outsK @ [StopIteration]" and g: "g = Finished"
    by simp_all
  have "\<exists>prediction.
           outs ! i = Yield (fs ! i, prediction)
         \<and> predict E self (Single (fs ! i)) mt model_id (snd (snd (pulls E self i ?g0 sent)))
             = (Inr prediction, snd (snd (pulls E self (Suc i) ?g0 sent)))
         \<and> fst (pulls E self (Suc i) ?g0 sent) = take (Suc i) outs
         \<and> fst (snd (pulls E self (Suc i) ?g0 sent)) = Running frames (Suc i) mt model_id"
    if i: "i < K" for i
  proof -
    from each i obtain p where "outsK ! i = Yield (fs ! i, p)"
      and "predict E self (Single (fs ! i)) mt model_id (snd (snd (pulls E self i ?g0 sent)))
              = (Inr p, snd (snd (pulls E self (Suc i) ?g0 sent)))"
      by blast
    moreover from i lenK o have "outs ! i = outsK ! i"
      by (simp add: nth_append)
    moreover from i have "fst (pulls E self (Suc i) ?g0 sent) = take (Suc i) outs"
      using pre [of "Suc i"] by simp
    moreover from i have "fst (snd (pulls E self (Suc i) ?g0 sent)) = Running frames (Suc i) mt model_id"
      using inv [of "Suc i"] ok [of "Suc i"] by simp
    ultimately show ?thesis by simp
  qed
  with o g lenK show ?thesis by (simp add: nth_append)
qed

theorem predict_on_stream_pairs_witness:
  "load_stream_inference_input (example_env echo_server) ''cam''
     (image_extensions_for_directory_scan (inference_configuration (example_client NEW))) 0
     = Some ''cam#0''
   \<and> load_stream_inference_input (example_env echo_server) ''cam''
       (image_extensions_for_directory_scan (inference_configuration (example_client NEW))) (Suc 0)
     = Some ''cam#1''
   \<and> load_stream_inference_input (example_env echo_server) ''cam''
       (image_extensions_for_directory_scan (inference_configuration (example_client NEW)))
       (Suc (Suc 0)) = None
   \<and> fst (pulls (example_env echo_server) (example_client NEW) (Suc (Suc (Suc 0)))
            (predict_on_stream (example_client NEW) ''cam'' None (Some ''a/1'')) [])
       = stream_outs
   \<and> (\<forall>e. Raise e \<notin> set stream_outs)
   \<and> length stream_outs = Suc (Suc (Suc 0)) \<and> stream_outs ! Suc (Suc 0) = StopIteration
   \<and> fst (snd (pulls (example_env echo_server) (example_client NEW) (Suc (Suc (Suc 0)))
                 (predict_on_stream (example_client NEW) ''cam'' None (Some ''a/1'')) []))
       = Finished
   \<and> (\<exists>prediction. stream_outs ! 0 = Yield (''cam#0'', prediction))
   \<and> (\<exists>prediction. stream_outs ! Suc 0 = Yield (''cam#1'', prediction))
   \<and> fst (pulls (example_env echo_server) (example_client NEW) (Suc 0)
            (predict_on_stream (example_client NEW) ''cam'' None (Some ''a/1'')) [])
       = take (Suc 0) stream_outs
   \<and> fst (snd (pulls (example_env echo_server) (example_client NEW) (Suc 0)
                 (predict_on_stream (example_client NEW) ''cam'' None (Some ''a/1'')) []))
       = Running (load_stream_inference_input (example_env echo_server) ''cam''
                    (image_extensions_for_directory_scan (inference_configuration (example_client NEW))))
           (Suc 0) None (Some ''a/1'')"
proof -
  let ?E = "example_env echo_server"
  let ?c = "example_client NEW"
  let ?g0 = "predict_on_stream ?c ''cam'' None (Some ''a/1'')"
  let ?frames = "load_stream_inference_input ?E ''cam''
                   (image_extensions_for_directory_scan (inference_configuration ?c))"
  let ?run = "pulls ?E ?c (Suc (Suc (Suc 0))) ?g0 []"
  have l: "length [''cam#0'', ''cam#1''] = Suc (Suc 0)" by simp
  have s: "\<forall>i<Suc (Suc 0). ?frames i = Some ([''cam#0'', ''cam#1''] ! i)"
    by (simp add: example_env_def less_Suc_eq)
  have n: "?frames (Suc (Suc 0)) = None"
    by (simp add: example_env_def)
  have f: "fst ?run = stream_outs"
    by (simp add: stream_outs_def predict_on_stream_def advance_def
        predict_def predict_body_def infer_from_new_api_def example_env_def
        example_client_def init_def echo_server_def json_response_def new_payload_def
        dict_update_def example_configuration_def new_request_def post_request_def send_def
        raise_for_status_def new_result_def response_json_def unwrap_single_element_list_def
        DEFAULT_HEADERS_def NEW_INFERENCE_ENDPOINTS_def model_id_value_def image_of_def)
  have r: "?run = (stream_outs, fst (snd ?run), snd (snd ?run))"
    using f by (metis prod.collapse)
  have k: "\<forall>e. Raise e \<notin> set stream_outs"
    by (simp add: stream_outs_def)
  note t = predict_on_stream_pairs [OF refl l s n r k]
  have c: "length stream_outs = Suc (Suc (Suc 0))" "stream_outs ! Suc (Suc 0) = StopIteration"
    "fst (snd ?run) = Finished"
    using t by simp_all
  have p0: "\<exists>prediction. stream_outs ! 0 = Yield (''cam#0'', prediction)"
    "fst (pulls ?E ?c (Suc 0) ?g0 []) = take (Suc 0) stream_outs"
    "fst (snd (pulls ?E ?c (Suc 0) ?g0 [])) = Running ?frames (Suc 0) None (Some ''a/1'')"
    using t [THEN conjunct2, THEN conjunct2, THEN conjunct2, rule_format, of 0]
    by auto
  have p1: "\<exists>prediction. stream_outs ! Suc 0 = Yield (''cam#1'', prediction)"
    using t [THEN conjunct2, THEN conjunct2, THEN conjunct2, rule_format, of "Suc 0"]
    by auto
  have s0: "?frames 0 = Some ''cam#0''" "?frames (Suc 0) = Some ''cam#1''"
    using s by auto
  show ?thesis
    using s0 n f k c p0 p1 by blast
qed

end
